theory Spec2Isabelle
  imports Complex_Main
begin

unbundle bit_operations_syntax

section \<open>Configuration (config.py)\<close>

text \<open>
  The class \<open>Config\<close> holds process-wide settings read from the environment when the module
  is loaded. The model passes them around as a record; each field keeps the name of the
  class attribute.
\<close>

record config =
  CAMERA_INDEX :: int
  MOTION_THRESHOLD :: real
  MIN_CONTOUR_AREA :: int
  NOTIFICATION_ENABLED :: bool
  EMAIL_ENABLED :: bool
  SMTP_SERVER :: string
  SMTP_PORT :: int
  EMAIL_FROM :: string
  EMAIL_TO :: string
  EMAIL_PASSWORD :: string
  NOTIFICATION_COOLDOWN_SECONDS :: int

text \<open>
  \<open>Config.validate\<close>: the three tests are separate \<open>if\<close> statements, each appending to the
  list that is returned. Python's \<open>not s\<close> on a string holds exactly for the empty string.
\<close>

definition validate :: "config \<Rightarrow> string list" where
  "validate cls =
     (if EMAIL_ENABLED cls \<and> NOTIFICATION_ENABLED cls then
        (if EMAIL_FROM cls = [] then
           [''EMAIL_FROM is required when email notifications are enabled''] else []) @
        (if EMAIL_TO cls = [] then
           [''EMAIL_TO is required when email notifications are enabled''] else []) @
        (if EMAIL_PASSWORD cls = [] then
           [''EMAIL_PASSWORD is required when email notifications are enabled''] else [])
      else [])"

text \<open>A configuration used to run the definitions on concrete inputs.\<close>

definition sample_config :: config where
  "sample_config =
     \<lparr>CAMERA_INDEX = 0, MOTION_THRESHOLD = 1000, MIN_CONTOUR_AREA = 500,
      NOTIFICATION_ENABLED = True, EMAIL_ENABLED = True,
      SMTP_SERVER = ''smtp.example.org'', SMTP_PORT = 587,
      EMAIL_FROM = ''cam@example.org'', EMAIL_TO = ''owner@example.org'',
      EMAIL_PASSWORD = ''secret'', NOTIFICATION_COOLDOWN_SECONDS = 60\<rparr>"

section \<open>Notifications (notifier.py)\<close>

text \<open>
  A \<open>datetime\<close> is a number of microseconds on the wall clock, the resolution of Python's
  type. The difference of two of them is a \<open>timedelta\<close>, and \<open>total_seconds\<close> turns it into
  seconds; the model keeps that quotient exact.
\<close>

type_synonym datetime = int

definition total_seconds :: "int \<Rightarrow> real" where
  "total_seconds td = real_of_int td / 1000000"

record NotificationManager =
  last_notification_time :: "datetime option"

definition init_NotificationManager :: NotificationManager where
  "init_NotificationManager = \<lparr>last_notification_time = None\<rparr>"

text \<open>
  \<open>_is_cooldown_active\<close>, given the reading \<open>now\<close> of the clock that the method takes. A
  \<open>datetime\<close> object is always truthy, so the first test is a test for \<open>None\<close>.
\<close>

definition is_cooldown_active :: "config \<Rightarrow> datetime \<Rightarrow> NotificationManager \<Rightarrow> bool" where
  "is_cooldown_active cfg now self =
     (case last_notification_time self of
        None \<Rightarrow> False
      | Some t0 \<Rightarrow> total_seconds (now - t0) < real_of_int (NOTIFICATION_COOLDOWN_SECONDS cfg))"

text \<open>
  What the outside world does during one call of \<open>send_email_notification\<close>: the readings of
  \<open>datetime.now()\<close> in the order the method takes them, whether building the message raises,
  what the attachment block does, and how far the SMTP session gets.
\<close>

datatype smtp_step = Connect | Starttls | Login | Send_message | Quit

datatype smtp_result = SmtpOk | SmtpError smtp_step

datatype attach_result = Attached "nat list" | AttachError

record send_env =
  now_cooldown :: datetime
  now_subject :: datetime
  now_body :: datetime
  now_filename :: datetime
  now_sent :: datetime
  build_raises :: bool
  attach_outcome :: attach_result
  smtp_outcome :: smtp_result

text \<open>
  The message: its headers, the text part (determined by the time in it and the camera
  index) and the image parts attached to it, each with the time in its file name.
\<close>

record email_message =
  msg_from :: string
  msg_to :: string
  msg_subject_time :: datetime
  msg_body_time :: datetime
  msg_body_camera :: int
  msg_images :: "(nat list \<times> datetime) list"

text \<open>
  The inner \<open>try\<close> of \<open>send_email_notification\<close>: only entered when a frame is given; any
  exception of the encoder or of the MIME classes is caught there, a warning is printed and
  the message stays as it was.
\<close>

definition attach_frame :: "send_env \<Rightarrow> 'f option \<Rightarrow> email_message \<Rightarrow> email_message \<times> string list" where
  "attach_frame env frame msg =
     (case frame of
        None \<Rightarrow> (msg, [])
      | Some f \<Rightarrow>
          (case attach_outcome env of
             Attached image_bytes \<Rightarrow>
               (msg\<lparr>msg_images := msg_images msg @ [(image_bytes, now_filename env)]\<rparr>, [])
           | AttachError \<Rightarrow> (msg, [''Warning: Could not attach image to email''])))"

definition build_message :: "config \<Rightarrow> send_env \<Rightarrow> email_message" where
  "build_message cfg env =
     \<lparr>msg_from = EMAIL_FROM cfg, msg_to = EMAIL_TO cfg,
      msg_subject_time = now_subject env, msg_body_time = now_body env,
      msg_body_camera = CAMERA_INDEX cfg, msg_images = []\<rparr>"

text \<open>
  The result of a call: the value returned, the manager afterwards, the message handed to
  \<open>server.send_message\<close> (if the call got that far) and the lines printed.
\<close>

record send_outcome =
  returned :: bool
  manager :: NotificationManager
  handed_over :: "email_message option"
  printed :: "string list"

definition reaches_send :: "smtp_result \<Rightarrow> bool" where
  "reaches_send r =
     (case r of
        SmtpOk \<Rightarrow> True
      | SmtpError Connect \<Rightarrow> False
      | SmtpError Starttls \<Rightarrow> False
      | SmtpError Login \<Rightarrow> False
      | SmtpError Send_message \<Rightarrow> True
      | SmtpError Quit \<Rightarrow> True)"

definition send_email_notification ::
  "config \<Rightarrow> send_env \<Rightarrow> NotificationManager \<Rightarrow> 'f option \<Rightarrow> send_outcome" where
  "send_email_notification cfg env self frame =
     (if \<not> EMAIL_ENABLED cfg \<or> \<not> NOTIFICATION_ENABLED cfg then
        \<lparr>returned = False, manager = self, handed_over = None, printed = []\<rparr>
      else if is_cooldown_active cfg (now_cooldown env) self then
        \<lparr>returned = False, manager = self, handed_over = None, printed = []\<rparr>
      else if build_raises env then
        \<lparr>returned = False, manager = self, handed_over = None,
         printed = [''Error sending email notification'']\<rparr>
      else
        (let (msg, warnings) = attach_frame env frame (build_message cfg env) in
         case smtp_outcome env of
           SmtpOk \<Rightarrow>
             \<lparr>returned = True,
              manager = self\<lparr>last_notification_time := Some (now_sent env)\<rparr>,
              handed_over = Some msg, printed = warnings\<rparr>
         | SmtpError step \<Rightarrow>
             \<lparr>returned = False, manager = self,
              handed_over = (if reaches_send (SmtpError step) then Some msg else None),
              printed = warnings @ [''Error sending email notification'']\<rparr>))"

text \<open>
  \<open>notify\<close>: email is the only channel it knows; \<open>success\<close> starts as \<open>False\<close> and is only
  ever set from the result of \<open>send_email_notification\<close>.
\<close>

definition notify ::
  "config \<Rightarrow> send_env \<Rightarrow> NotificationManager \<Rightarrow> 'f option \<Rightarrow> send_outcome" where
  "notify cfg env self frame =
     (if \<not> NOTIFICATION_ENABLED cfg then
        \<lparr>returned = False, manager = self, handed_over = None, printed = []\<rparr>
      else
        (let success = False in
         if EMAIL_ENABLED cfg then
           (let r = send_email_notification cfg env self frame
            in r\<lparr>returned := returned r \<or> success\<rparr>)
         else \<lparr>returned = success, manager = self, handed_over = None, printed = []\<rparr>))"

definition sample_env :: send_env where
  "sample_env =
     \<lparr>now_cooldown = 100000000, now_subject = 100000010, now_body = 100000020,
      now_filename = 100000030, now_sent = 100500000, build_raises = False,
      attach_outcome = Attached [255, 216, 255], smtp_outcome = SmtpOk\<rparr>"

text \<open>A first alert that succeeds, from a fresh manager; its time stamp is \<open>100500000\<close>.\<close>

definition first_alert :: send_outcome where
  "first_alert =
     send_email_notification sample_config sample_env init_NotificationManager
       (None :: unit option)"

section \<open>Camera and motion detection (camera.py)\<close>

subsection \<open>Images and the arrays that hold them\<close>

text \<open>
  A contour is used through two measurements only, \<open>cv2.contourArea\<close> (a float) and
  \<open>cv2.boundingRect\<close> (\<open>x\<close>, \<open>y\<close>, \<open>w\<close>, \<open>h\<close>); the record holds both.
\<close>

record contour =
  contourArea :: real
  boundingRect :: "int \<times> int \<times> int \<times> int"

text \<open>
  The content of an array of pixels is described by how it came about: the capture the
  camera delivered, and the drawing operations applied since. \<open>Rectangle\<close> is the green
  outline of thickness 2 between two corners, \<open>DrawContours\<close> fills all the given contours in
  green, \<open>AddWeighted\<close> blends two images with the weights 0.7 and 0.3, \<open>PutText\<close> writes a
  caption: the status line (for the value of \<open>motion_detected\<close>) or the line with the time.
\<close>

datatype caption = Status bool | Timestamp datetime

datatype image =
    Captured nat
  | Rectangle image "int \<times> int" "int \<times> int"
  | DrawContours image "contour list"
  | AddWeighted image image
  | PutText image caption

text \<open>
  Frames are numpy arrays, passed by reference and drawn on in place. The store lists the
  arrays allocated so far; an array is named by its position, and a new one goes at the end.
\<close>

type_synonym store = "image list"

definition alloc :: "store \<Rightarrow> image \<Rightarrow> nat \<times> store" where
  "alloc s v = (length s, s @ [v])"

subsection \<open>The detector\<close>

text \<open>
  The object's attributes. The callback, when there is one, receives the frame and acts on
  a state of its own; \<open>cap\<close> is \<open>None\<close> before \<open>start\<close> and afterwards tells whether the device
  is open. The background subtractor is an object of OpenCV with a state of type \<open>'bg\<close>.
\<close>

record ('bg, 'u) MotionDetector =
  camera_index :: int
  on_motion_detected :: "(image \<Rightarrow> 'u \<Rightarrow> 'u) option"
  cap :: "bool option"
  background_subtractor :: 'bg
  frame_count :: int
  running :: bool

text \<open>
  \<open>__init__\<close>: the argument \<open>camera_index\<close> defaults to \<open>None\<close>. Python's \<open>a or b\<close> yields \<open>b\<close>
  when \<open>a\<close> is falsy, which for this argument means \<open>None\<close> or the integer \<open>0\<close>.
\<close>

definition init_MotionDetector ::
  "config \<Rightarrow> 'bg \<Rightarrow> int option \<Rightarrow> (image \<Rightarrow> 'u \<Rightarrow> 'u) option \<Rightarrow> ('bg, 'u) MotionDetector" where
  "init_MotionDetector cfg mog2 camera_index_arg callback =
     \<lparr>camera_index =
        (case camera_index_arg of
           None \<Rightarrow> CAMERA_INDEX cfg
         | Some i \<Rightarrow> if i = 0 then CAMERA_INDEX cfg else i),
      on_motion_detected = callback,
      cap = None,
      background_subtractor = mog2,
      frame_count = 0,
      running = False\<rparr>"

text \<open>\<open>start\<close>, given whether the device opened, and \<open>stop\<close>.\<close>

definition start :: "bool \<Rightarrow> ('bg, 'u) MotionDetector \<Rightarrow> bool \<times> ('bg, 'u) MotionDetector" where
  "start opened self =
     (if \<not> opened then (False, self\<lparr>cap := Some False\<rparr>)
      else (True, self\<lparr>cap := Some True, running := True\<rparr>))"

definition stop :: "('bg, 'u) MotionDetector \<Rightarrow> ('bg, 'u) MotionDetector" where
  "stop self = self\<lparr>running := False, cap := map_option (\<lambda>_. False) (cap self)\<rparr>"

text \<open>
  The loop of \<open>_detect_motion\<close> over the contours, with the variables it updates: the flag,
  the list of motion areas, and the store, in which the array \<open>frame\<close> gets each bounding box
  drawn on it.
\<close>

fun mark_contours ::
  "config \<Rightarrow> nat \<Rightarrow> contour list \<Rightarrow> bool \<times> contour list \<times> store \<Rightarrow> bool \<times> contour list \<times> store"
where
  "mark_contours cfg frame [] acc = acc"
| "mark_contours cfg frame (c # cs) (motion_detected, motion_areas, s) =
     (if real_of_int (MIN_CONTOUR_AREA cfg) < contourArea c then
        (case boundingRect c of
           (x, y, w, h) \<Rightarrow>
             mark_contours cfg frame cs
               (True, motion_areas @ [c],
                s[frame := Rectangle (s ! frame) (x, y) (x + w, y + h)]))
      else mark_contours cfg frame cs (motion_detected, motion_areas, s))"

text \<open>
  \<open>_detect_motion\<close>. Background subtraction, the two morphological operations, the blur and
  \<open>findContours\<close> are OpenCV's: together they read the frame, update the background
  subtractor and yield the contours, which is the parameter \<open>vision\<close>. The overlay is a copy
  in a new array; \<open>addWeighted\<close> returns a new array, whose name is returned with the flag.
\<close>

definition detect_motion ::
  "config \<Rightarrow> ('bg \<Rightarrow> image \<Rightarrow> 'bg \<times> contour list) \<Rightarrow> 'bg \<Rightarrow> store \<Rightarrow> nat
     \<Rightarrow> (bool \<times> nat) \<times> 'bg \<times> store" where
  "detect_motion cfg vision bg s frame =
     (case vision bg (s ! frame) of
        (bg', contours) \<Rightarrow>
          (case mark_contours cfg frame contours (False, [], s) of
             (motion_detected, motion_areas, s1) \<Rightarrow>
               (case alloc s1 (s1 ! frame) of
                  (overlay, s2) \<Rightarrow>
                    (let s3 = s2[overlay := DrawContours (s2 ! overlay) motion_areas] in
                     case alloc s3 (AddWeighted (s3 ! frame) (s3 ! overlay)) of
                       (blended, s4) \<Rightarrow> ((motion_detected, blended), bg', s4)))))"

subsection \<open>The loop\<close>

text \<open>
  One successful \<open>cap.read()\<close> brings the pixels of a new array; with it come the key that
  \<open>cv2.waitKey\<close> returns in that iteration and the reading of the clock for the time line.
\<close>

record camera_read =
  read_pixels :: nat
  read_key :: int
  read_now :: datetime

record ('bg, 'u) world =
  detector :: "('bg, 'u) MotionDetector"
  heap :: store
  user :: 'u

text \<open>
  What an iteration shows: during warm-up the frame as read; afterwards the flag, the
  processed frame in the window, and the frame given to the callback if it was called.
\<close>

datatype frame_report = Skipped image | Analysed bool image "image option"

definition quit_pressed :: "int \<Rightarrow> bool" where
  "quit_pressed k \<longleftrightarrow> (k AND 255) = 113"

text \<open>
  The body of the \<open>while\<close> loop of \<open>run\<close> after a successful read. The second component of
  the result tells whether the iteration ends in \<open>break\<close>.
\<close>

definition process_frame ::
  "config \<Rightarrow> ('bg \<Rightarrow> image \<Rightarrow> 'bg \<times> contour list) \<Rightarrow> camera_read \<Rightarrow> ('bg, 'u) world
     \<Rightarrow> frame_report \<times> bool \<times> ('bg, 'u) world" where
  "process_frame cfg vision r w =
     (case alloc (heap w) (Captured (read_pixels r)) of
        (frame, s1) \<Rightarrow>
          (let self = (detector w)\<lparr>frame_count := frame_count (detector w) + 1\<rparr> in
           if frame_count self < 30 then
             (Skipped (s1 ! frame), quit_pressed (read_key r), w\<lparr>detector := self, heap := s1\<rparr>)
           else
             (case detect_motion cfg vision (background_subtractor self) s1 frame of
                ((motion_detected, processed_frame), bg', s2) \<Rightarrow>
                  (let s3 = s2[processed_frame :=
                               PutText (s2 ! processed_frame) (Status motion_detected)];
                       s4 = s3[processed_frame :=
                               PutText (s3 ! processed_frame) (Timestamp (read_now r))];
                       called = (if motion_detected then on_motion_detected self else None)
                   in (Analysed motion_detected (s4 ! processed_frame)
                         (map_option (\<lambda>_. s4 ! frame) called),
                       quit_pressed (read_key r),
                       \<lparr>detector = self\<lparr>background_subtractor := bg'\<rparr>,
                        heap = s4,
                        user = (case called of
                                  None \<Rightarrow> user w
                                | Some callback \<Rightarrow> callback (s4 ! frame) (user w))\<rparr>)))))"

text \<open>
  The \<open>while\<close> loop, over the frames the camera delivers before a read fails: when the list
  is used up the next read fails and the loop ends.
\<close>

fun run_loop ::
  "config \<Rightarrow> ('bg \<Rightarrow> image \<Rightarrow> 'bg \<times> contour list) \<Rightarrow> camera_read list \<Rightarrow> ('bg, 'u) world
     \<Rightarrow> frame_report list \<times> ('bg, 'u) world" where
  "run_loop cfg vision [] w = ([], w)"
| "run_loop cfg vision (r # rs) w =
     (if \<not> running (detector w) then ([], w)
      else
        (case process_frame cfg vision r w of
           (report, quit, w') \<Rightarrow>
             if quit then ([report], w')
             else (case run_loop cfg vision rs w' of
                     (reports, w'') \<Rightarrow> (report # reports, w''))))"

text \<open>\<open>run\<close>: nothing happens unless the camera was started; after the loop comes \<open>stop\<close>.\<close>

definition run ::
  "config \<Rightarrow> ('bg \<Rightarrow> image \<Rightarrow> 'bg \<times> contour list) \<Rightarrow> camera_read list \<Rightarrow> ('bg, 'u) world
     \<Rightarrow> frame_report list \<times> ('bg, 'u) world" where
  "run cfg vision reads w =
     (if cap (detector w) \<noteq> Some True then ([], w)
      else
        (case run_loop cfg vision reads w of
           (reports, w') \<Rightarrow> (reports, w'\<lparr>detector := stop (detector w')\<rparr>)))"

subsection \<open>A scene to run the detector on\<close>

text \<open>
  A front end that finds, in every frame, one contour of area 2000 with the bounding box
  \<open>(10, 10, 50, 40)\<close>; a callback that counts its calls; thirty reads without a key press;
  and the world after \<open>__init__\<close> and a successful \<open>start\<close>.
\<close>

definition moving_scene :: "unit \<Rightarrow> image \<Rightarrow> unit \<times> contour list" where
  "moving_scene bg img = ((), [\<lparr>contourArea = 2000, boundingRect = (10, 10, 50, 40)\<rparr>])"

definition count_calls :: "image \<Rightarrow> nat \<Rightarrow> nat" where
  "count_calls img n = Suc n"

definition thirty_reads :: "camera_read list" where
  "thirty_reads = replicate 30 \<lparr>read_pixels = 7, read_key = -1, read_now = 100000000\<rparr>"

definition started_world :: "(unit, nat) world" where
  "started_world =
     \<lparr>detector = snd (start True (init_MotionDetector sample_config () None (Some count_calls))),
      heap = [], user = 0\<rparr>"

section \<open>Properties of the configuration check\<close>

text \<open>
  C6: with notifications and email both enabled and the sender, the recipient and the
  password all empty, \<open>validate\<close> returns exactly three messages, one for each missing
  field, in the order sender, recipient, password.
\<close>

theorem validate_reports_all_three:
  assumes "NOTIFICATION_ENABLED cfg" and "EMAIL_ENABLED cfg"
    and "EMAIL_FROM cfg = []" and "EMAIL_TO cfg = []" and "EMAIL_PASSWORD cfg = []"
  shows "validate cfg =
           [''EMAIL_FROM is required when email notifications are enabled'',
            ''EMAIL_TO is required when email notifications are enabled'',
            ''EMAIL_PASSWORD is required when email notifications are enabled'']
         \<and> length (validate cfg) = 3"
  using assms by (simp add: validate_def)

theorem validate_reports_all_three_witness:
  "length (validate (sample_config\<lparr>EMAIL_FROM := [], EMAIL_TO := [], EMAIL_PASSWORD := []\<rparr>)) = 3"
  using validate_reports_all_three
    [of "sample_config\<lparr>EMAIL_FROM := [], EMAIL_TO := [], EMAIL_PASSWORD := []\<rparr>"]
  by (simp add: sample_config_def)

section \<open>Properties of the notifier\<close>

lemma send_disabled:
  "\<not> EMAIL_ENABLED cfg \<or> \<not> NOTIFICATION_ENABLED cfg \<Longrightarrow>
   send_email_notification cfg env self frame =
     \<lparr>returned = False, manager = self, handed_over = None, printed = []\<rparr>"
  by (simp add: send_email_notification_def)

lemma send_cooldown:
  "EMAIL_ENABLED cfg \<Longrightarrow> NOTIFICATION_ENABLED cfg \<Longrightarrow>
   is_cooldown_active cfg (now_cooldown env) self \<Longrightarrow>
   send_email_notification cfg env self frame =
     \<lparr>returned = False, manager = self, handed_over = None, printed = []\<rparr>"
  by (simp add: send_email_notification_def)

lemma send_returned_iff:
  "returned (send_email_notification cfg env self frame) \<longleftrightarrow>
     EMAIL_ENABLED cfg \<and> NOTIFICATION_ENABLED cfg
     \<and> \<not> is_cooldown_active cfg (now_cooldown env) self
     \<and> \<not> build_raises env \<and> smtp_outcome env = SmtpOk"
  by (auto simp: send_email_notification_def split: prod.splits smtp_result.splits)

lemma send_manager:
  "manager (send_email_notification cfg env self frame) =
     (if returned (send_email_notification cfg env self frame)
      then self\<lparr>last_notification_time := Some (now_sent env)\<rparr> else self)"
  by (auto simp: send_email_notification_def split: prod.splits smtp_result.splits)

lemma send_handed_over:
  "EMAIL_ENABLED cfg \<Longrightarrow> NOTIFICATION_ENABLED cfg \<Longrightarrow>
   \<not> is_cooldown_active cfg (now_cooldown env) self \<Longrightarrow> \<not> build_raises env \<Longrightarrow>
   handed_over (send_email_notification cfg env self frame) =
     (if reaches_send (smtp_outcome env)
      then Some (fst (attach_frame env frame (build_message cfg env))) else None)"
  by (auto simp: send_email_notification_def reaches_send_def
           split: prod.splits smtp_result.splits smtp_step.splits)

lemma cooldown_after_alert:
  "is_cooldown_active cfg now (self\<lparr>last_notification_time := Some t\<rparr>) \<longleftrightarrow>
     total_seconds (now - t) < real_of_int (NOTIFICATION_COOLDOWN_SECONDS cfg)"
  by (simp add: is_cooldown_active_def)

text \<open>
  C3: let a call of \<open>send_email_notification\<close> succeed, storing the time \<open>t\<close> it read after
  the send. For the next attempt, whose cooldown check reads the clock at \<open>now\<close>, the cooldown
  is active exactly when the seconds elapsed since \<open>t\<close> are strictly fewer than the
  configured cooldown. While it is active the attempt returns \<open>False\<close>, hands nothing to the
  mail server and leaves the manager alone; once the elapsed time has reached the cooldown
  the attempt goes on to build and deliver the message, and returns \<open>True\<close> exactly when
  that raises nothing. The witness takes the cooldown of 60 seconds, at 59 and at 60 seconds.
\<close>

theorem cooldown_gates_next_attempt:
  assumes first: "returned (send_email_notification cfg env0 self0 frame0)"
    and self: "self = manager (send_email_notification cfg env0 self0 frame0)"
    and t: "t = now_sent env0"
    and elapsed: "elapsed = total_seconds (now_cooldown env - t)"
    and cd: "cd = real_of_int (NOTIFICATION_COOLDOWN_SECONDS cfg)"
  shows "(is_cooldown_active cfg (now_cooldown env) self \<longleftrightarrow> elapsed < cd)
       \<and> (elapsed < cd \<longrightarrow>
            send_email_notification cfg env self frame =
              \<lparr>returned = False, manager = self, handed_over = None, printed = []\<rparr>)
       \<and> (cd \<le> elapsed \<longrightarrow>
            (returned (send_email_notification cfg env self frame)
               \<longleftrightarrow> \<not> build_raises env \<and> smtp_outcome env = SmtpOk)
            \<and> (\<not> build_raises env \<longrightarrow>
                 handed_over (send_email_notification cfg env self frame) =
                   (if reaches_send (smtp_outcome env)
                    then Some (fst (attach_frame env frame (build_message cfg env)))
                    else None)))"
proof -
  from first have en: "EMAIL_ENABLED cfg" "NOTIFICATION_ENABLED cfg"
    by (simp_all add: send_returned_iff)
  from first self t have m: "self = self0\<lparr>last_notification_time := Some t\<rparr>"
    by (simp add: send_manager)
  have active: "is_cooldown_active cfg (now_cooldown env) self \<longleftrightarrow> elapsed < cd"
    unfolding m elapsed cd by (rule cooldown_after_alert)
  have suppress: "elapsed < cd \<longrightarrow>
      send_email_notification cfg env self frame =
        \<lparr>returned = False, manager = self, handed_over = None, printed = []\<rparr>"
    using active en by (simp add: send_cooldown)
  have emit: "cd \<le> elapsed \<longrightarrow>
      (returned (send_email_notification cfg env self frame)
         \<longleftrightarrow> \<not> build_raises env \<and> smtp_outcome env = SmtpOk)
      \<and> (\<not> build_raises env \<longrightarrow>
           handed_over (send_email_notification cfg env self frame) =
             (if reaches_send (smtp_outcome env)
              then Some (fst (attach_frame env frame (build_message cfg env)))
              else None))"
    using active en by (simp add: send_returned_iff send_handed_over)
  from active suppress emit show ?thesis by blast
qed

theorem cooldown_gates_next_attempt_witness:
  "returned first_alert
   \<and> \<not> returned (send_email_notification sample_config
                  (sample_env\<lparr>now_cooldown := 159500000\<rparr>)
                  (manager first_alert) (None :: unit option))
   \<and> returned (send_email_notification sample_config
                  (sample_env\<lparr>now_cooldown := 160500000\<rparr>)
                  (manager first_alert) (None :: unit option))"
proof -
  have r: "returned (send_email_notification sample_config sample_env
             init_NotificationManager (None :: unit option))"
    by (simp add: send_returned_iff sample_config_def sample_env_def
        is_cooldown_active_def init_NotificationManager_def)
  note a = cooldown_gates_next_attempt [OF r refl refl refl refl,
      of "sample_env\<lparr>now_cooldown := 159500000\<rparr>" "None :: unit option"]
  note b = cooldown_gates_next_attempt [OF r refl refl refl refl,
      of "sample_env\<lparr>now_cooldown := 160500000\<rparr>" "None :: unit option"]
  from a have "\<not> returned (send_email_notification sample_config
                  (sample_env\<lparr>now_cooldown := 159500000\<rparr>)
                  (manager first_alert) (None :: unit option))"
    by (simp add: first_alert_def sample_config_def sample_env_def total_seconds_def)
  moreover from b have "returned (send_email_notification sample_config
                  (sample_env\<lparr>now_cooldown := 160500000\<rparr>)
                  (manager first_alert) (None :: unit option))"
    by (simp add: first_alert_def sample_config_def sample_env_def total_seconds_def)
  ultimately show ?thesis using r by (simp add: first_alert_def)
qed

lemma notify_eq_send:
  "NOTIFICATION_ENABLED cfg \<Longrightarrow> EMAIL_ENABLED cfg \<Longrightarrow>
   notify cfg env self frame = send_email_notification cfg env self frame"
  by (simp add: notify_def)

lemma notify_returned_imp_send:
  "returned (notify cfg env self frame) = returned (send_email_notification cfg env self frame)"
  by (simp add: notify_def send_email_notification_def)

lemma notify_manager:
  "manager (notify cfg env self frame) = manager (send_email_notification cfg env self frame)"
  by (simp add: notify_def send_email_notification_def)

text \<open>
  C4: when the SMTP session raises at any of its steps (connecting, STARTTLS, login, sending
  or quitting), \<open>send_email_notification\<close> and \<open>notify\<close> return \<open>False\<close> and the manager's
  \<open>last_notification_time\<close> is what it was before the call: a send that failed does not
  start a cooldown.
\<close>

theorem transport_failure_keeps_timestamp:
  assumes "smtp_outcome env = SmtpError step"
  shows "\<not> returned (send_email_notification cfg env self frame)
       \<and> last_notification_time (manager (send_email_notification cfg env self frame))
           = last_notification_time self
       \<and> \<not> returned (notify cfg env self frame)
       \<and> last_notification_time (manager (notify cfg env self frame))
           = last_notification_time self"
proof -
  have r: "\<not> returned (send_email_notification cfg env self frame)"
    using assms by (simp add: send_returned_iff)
  then have m: "manager (send_email_notification cfg env self frame) = self"
    by (simp add: send_manager)
  from r m show ?thesis
    by (simp add: notify_returned_imp_send notify_manager)
qed

theorem transport_failure_keeps_timestamp_witness:
  "smtp_outcome (sample_env\<lparr>now_cooldown := 160500000, smtp_outcome := SmtpError Send_message\<rparr>)
     = SmtpError Send_message
   \<and> \<not> is_cooldown_active sample_config 160500000 (manager first_alert)
   \<and> \<not> returned (send_email_notification sample_config
         (sample_env\<lparr>now_cooldown := 160500000, smtp_outcome := SmtpError Send_message\<rparr>)
         (manager first_alert) (Some ()))
   \<and> last_notification_time (manager (send_email_notification sample_config
         (sample_env\<lparr>now_cooldown := 160500000, smtp_outcome := SmtpError Send_message\<rparr>)
         (manager first_alert) (Some ()))) = Some 100500000"
proof -
  have h: "smtp_outcome (sample_env\<lparr>now_cooldown := 160500000, smtp_outcome := SmtpError Send_message\<rparr>)
     = SmtpError Send_message" by simp
  have l: "last_notification_time (manager first_alert) = Some 100500000"
    by (simp add: first_alert_def send_email_notification_def sample_config_def sample_env_def
      init_NotificationManager_def is_cooldown_active_def attach_frame_def)
  then have c: "\<not> is_cooldown_active sample_config 160500000 (manager first_alert)"
    by (simp add: is_cooldown_active_def sample_config_def total_seconds_def)
  from transport_failure_keeps_timestamp [OF h, of sample_config "manager first_alert" "Some ()"] h l c
  show ?thesis by simp
qed

text \<open>
  C7: let a frame be supplied and its encoding or attachment raise, in a call that is
  neither disabled nor in cooldown. The exception is caught inside: the message handed to
  the mail server is the text message without any image part, and the call returns \<open>True\<close>
  exactly when the SMTP session succeeds, as it would for a call without a frame.
\<close>

theorem attachment_failure_still_sends:
  assumes "EMAIL_ENABLED cfg" and "NOTIFICATION_ENABLED cfg"
    and "\<not> is_cooldown_active cfg (now_cooldown env) self"
    and "\<not> build_raises env"
    and "attach_outcome env = AttachError"
  shows "handed_over (send_email_notification cfg env self (Some f)) =
           (if reaches_send (smtp_outcome env) then Some (build_message cfg env) else None)
       \<and> msg_images (build_message cfg env) = []
       \<and> (returned (send_email_notification cfg env self (Some f))
            \<longleftrightarrow> smtp_outcome env = SmtpOk)
       \<and> (returned (send_email_notification cfg env self (Some f))
            \<longleftrightarrow> returned (send_email_notification cfg env self None))"
  using assms
  by (simp add: send_returned_iff send_handed_over attach_frame_def build_message_def)

theorem attachment_failure_still_sends_witness:
  "returned (send_email_notification sample_config (sample_env\<lparr>attach_outcome := AttachError\<rparr>)
       init_NotificationManager (Some ()))
   \<and> handed_over (send_email_notification sample_config (sample_env\<lparr>attach_outcome := AttachError\<rparr>)
       init_NotificationManager (Some ()))
     = Some (build_message sample_config (sample_env\<lparr>attach_outcome := AttachError\<rparr>))"
proof -
  let ?env = "sample_env\<lparr>attach_outcome := AttachError\<rparr>"
  have a: "EMAIL_ENABLED sample_config" "NOTIFICATION_ENABLED sample_config"
    by (simp_all add: sample_config_def)
  have b: "\<not> is_cooldown_active sample_config (now_cooldown ?env) init_NotificationManager"
    by (simp add: is_cooldown_active_def init_NotificationManager_def)
  have c: "\<not> build_raises ?env" "attach_outcome ?env = AttachError"
    by (simp_all add: sample_env_def)
  have e: "smtp_outcome ?env = SmtpOk" "reaches_send SmtpOk"
    by (simp_all add: sample_env_def reaches_send_def)
  note t = attachment_failure_still_sends [OF a b c, of "()"]
  from t e show ?thesis by metis
qed

text \<open>
  C9: for every call of \<open>send_email_notification\<close>, whatever the configuration, the clock,
  the frame and the failures met: if it returns \<open>False\<close> the manager is unchanged, and if it
  returns \<open>True\<close> the manager's \<open>last_notification_time\<close> is the time read after the send.
\<close>

theorem timestamp_changes_only_on_success:
  "(\<not> returned (send_email_notification cfg env self frame) \<longrightarrow>
      manager (send_email_notification cfg env self frame) = self)
   \<and> (returned (send_email_notification cfg env self frame) \<longrightarrow>
      manager (send_email_notification cfg env self frame)
        = self\<lparr>last_notification_time := Some (now_sent env)\<rparr>)"
  by (simp add: send_manager)

theorem timestamp_changes_only_on_success_witness:
  "manager (send_email_notification sample_config sample_env init_NotificationManager (Some ()))
     = \<lparr>last_notification_time = Some 100500000\<rparr>
   \<and> manager (send_email_notification sample_config (sample_env\<lparr>smtp_outcome := SmtpError Login\<rparr>)
        init_NotificationManager (Some ())) = init_NotificationManager"
proof -
  have en: "EMAIL_ENABLED sample_config \<and> NOTIFICATION_ENABLED sample_config"
    by (simp add: sample_config_def)
  have nc: "\<not> is_cooldown_active sample_config t init_NotificationManager" for t
    by (simp add: is_cooldown_active_def init_NotificationManager_def)
  have ok: "returned (send_email_notification sample_config sample_env init_NotificationManager (Some ()))"
    using en nc by (simp add: send_returned_iff) (simp add: sample_env_def)
  have ko: "\<not> returned (send_email_notification sample_config (sample_env\<lparr>smtp_outcome := SmtpError Login\<rparr>)
        init_NotificationManager (Some ()))"
    by (simp add: send_returned_iff)
  from timestamp_changes_only_on_success [of sample_config sample_env init_NotificationManager "Some ()"] ok
  have 1: "manager (send_email_notification sample_config sample_env init_NotificationManager (Some ()))
     = \<lparr>last_notification_time = Some 100500000\<rparr>"
    by (simp add: sample_env_def init_NotificationManager_def)
  from timestamp_changes_only_on_success [of sample_config "sample_env\<lparr>smtp_outcome := SmtpError Login\<rparr>"
      init_NotificationManager "Some ()"] ko
  have 2: "manager (send_email_notification sample_config (sample_env\<lparr>smtp_outcome := SmtpError Login\<rparr>)
        init_NotificationManager (Some ())) = init_NotificationManager"
    by simp
  from 1 2 show ?thesis by simp
qed

text \<open>
  C10: with notifications enabled and email disabled, \<open>notify\<close> returns \<open>False\<close> for every
  frame, clock and manager; it hands nothing to a mail server and leaves the manager alone.
\<close>

theorem notify_without_email_never_sends:
  assumes "NOTIFICATION_ENABLED cfg" and "\<not> EMAIL_ENABLED cfg"
  shows "notify cfg env self frame =
           \<lparr>returned = False, manager = self, handed_over = None, printed = []\<rparr>"
  using assms by (simp add: notify_def)

theorem notify_without_email_never_sends_witness:
  "\<not> returned (notify (sample_config\<lparr>EMAIL_ENABLED := False\<rparr>) sample_env
        init_NotificationManager (Some ()))"
proof -
  have "NOTIFICATION_ENABLED (sample_config\<lparr>EMAIL_ENABLED := False\<rparr>)"
    and "\<not> EMAIL_ENABLED (sample_config\<lparr>EMAIL_ENABLED := False\<rparr>)"
    by (simp_all add: sample_config_def)
  from notify_without_email_never_sends [OF this, of sample_env init_NotificationManager "Some ()"]
  show ?thesis by simp
qed

section \<open>Properties of the detector\<close>

lemma mark_contours_flag:
  "fst (mark_contours cfg frame cs (md, ma, s)) \<longleftrightarrow>
     md \<or> (\<exists>c\<in>set cs. real_of_int (MIN_CONTOUR_AREA cfg) < contourArea c)"
  by (induction cs arbitrary: md ma s) (auto split: prod.splits)

lemma mark_contours_areas:
  "fst (snd (mark_contours cfg frame cs (md, ma, s))) =
     ma @ filter (\<lambda>c. real_of_int (MIN_CONTOUR_AREA cfg) < contourArea c) cs"
  by (induction cs arbitrary: md ma s) (auto split: prod.splits)

lemma mark_contours_length:
  "length (snd (snd (mark_contours cfg frame cs (md, ma, s)))) = length s"
  by (induction cs arbitrary: md ma s) (auto split: prod.splits)

lemma mark_contours_other:
  "a \<noteq> frame \<Longrightarrow> snd (snd (mark_contours cfg frame cs (md, ma, s))) ! a = s ! a"
  by (induction cs arbitrary: md ma s) (auto split: prod.splits)

lemma mark_contours_frame:
  "frame < length s \<Longrightarrow>
   snd (snd (mark_contours cfg frame cs (md, ma, s))) ! frame =
     foldl (\<lambda>img c. case boundingRect c of (x, y, w, h) \<Rightarrow> Rectangle img (x, y) (x + w, y + h))
       (s ! frame)
       (filter (\<lambda>c. real_of_int (MIN_CONTOUR_AREA cfg) < contourArea c) cs)"
  by (induction cs arbitrary: md ma s) (auto split: prod.splits)

text \<open>
  C2: a contour is put among the motion areas (and then sets \<open>motion_detected\<close>) exactly
  when its area is strictly greater than \<open>MIN_CONTOUR_AREA\<close>. A contour whose area equals the
  threshold is not significant, one whose area is the threshold plus one is, and the flag
  that \<open>_detect_motion\<close> returns is true exactly when some contour found in the frame is
  significant.
\<close>

theorem area_threshold_is_strict:
  assumes "mark_contours cfg frame contours (False, [], s) = (motion_detected, motion_areas, s')"
  shows "(\<forall>c. c \<in> set motion_areas \<longleftrightarrow>
            c \<in> set contours \<and> real_of_int (MIN_CONTOUR_AREA cfg) < contourArea c)
       \<and> (motion_detected \<longleftrightarrow> motion_areas \<noteq> [])
       \<and> (\<forall>c \<in> set contours. contourArea c = real_of_int (MIN_CONTOUR_AREA cfg)
             \<longrightarrow> c \<notin> set motion_areas)
       \<and> (\<forall>c \<in> set contours. contourArea c = real_of_int (MIN_CONTOUR_AREA cfg + 1)
             \<longrightarrow> c \<in> set motion_areas)
       \<and> (fst (fst (detect_motion cfg vision bg s0 frame)) \<longleftrightarrow>
            (\<exists>c \<in> set (snd (vision bg (s0 ! frame))).
               real_of_int (MIN_CONTOUR_AREA cfg) < contourArea c))"
proof -
  have ma: "motion_areas = filter (\<lambda>c. real_of_int (MIN_CONTOUR_AREA cfg) < contourArea c) contours"
    using mark_contours_areas [of cfg frame contours False "[]" s] assms by simp
  have md: "motion_detected \<longleftrightarrow> (\<exists>c\<in>set contours. real_of_int (MIN_CONTOUR_AREA cfg) < contourArea c)"
    using mark_contours_flag [of cfg frame contours False "[]" s] assms by simp
  have dm: "fst (fst (detect_motion cfg vision bg s0 frame)) \<longleftrightarrow>
            (\<exists>c \<in> set (snd (vision bg (s0 ! frame))).
               real_of_int (MIN_CONTOUR_AREA cfg) < contourArea c)"
  proof -
    obtain bg' cs where v: "vision bg (s0 ! frame) = (bg', cs)" by (cases "vision bg (s0 ! frame)")
    obtain md' ma' s1 where m: "mark_contours cfg frame cs (False, [], s0) = (md', ma', s1)"
      by (cases "mark_contours cfg frame cs (False, [], s0)")
    have "fst (fst (detect_motion cfg vision bg s0 frame)) = md'"
      by (simp add: detect_motion_def v m alloc_def Let_def)
    with mark_contours_flag [of cfg frame cs False "[]" s0] m v show ?thesis by simp
  qed
  from ma md have "motion_detected \<longleftrightarrow> motion_areas \<noteq> []"
    by (auto simp: filter_empty_conv)
  with ma dm show ?thesis by auto
qed


theorem area_threshold_is_strict_witness:
  "mark_contours sample_config 0
     [\<lparr>contourArea = 500, boundingRect = (1, 2, 3, 4)\<rparr>,
      \<lparr>contourArea = 501, boundingRect = (5, 6, 7, 8)\<rparr>] (False, [], [Captured 7])
   = (True, [\<lparr>contourArea = 501, boundingRect = (5, 6, 7, 8)\<rparr>],
      [Rectangle (Captured 7) (5, 6) (12, 14)])
   \<and> \<lparr>contourArea = 500, boundingRect = (1, 2, 3, 4)\<rparr>
        \<notin> set [\<lparr>contourArea = 501, boundingRect = (5, 6, 7, 8)\<rparr>]
   \<and> \<lparr>contourArea = 501, boundingRect = (5, 6, 7, 8)\<rparr>
        \<in> set [\<lparr>contourArea = 501, boundingRect = (5, 6, 7, 8)\<rparr>]"
proof -
  have e: "mark_contours sample_config 0
     [\<lparr>contourArea = 500, boundingRect = (1, 2, 3, 4)\<rparr>,
      \<lparr>contourArea = 501, boundingRect = (5, 6, 7, 8)\<rparr>] (False, [], [Captured 7])
   = (True, [\<lparr>contourArea = 501, boundingRect = (5, 6, 7, 8)\<rparr>],
      [Rectangle (Captured 7) (5, 6) (12, 14)])"
    by (simp add: sample_config_def)
  have m: "real_of_int (MIN_CONTOUR_AREA sample_config) = 500"
    "real_of_int (MIN_CONTOUR_AREA sample_config + 1) = 501"
    by (simp_all add: sample_config_def)
  note t = area_threshold_is_strict [OF e, of moving_scene "()" "[Captured 7]"]
  from t m e show ?thesis by simp
qed

text \<open>
  C8 (amended): constructing the detector with \<open>camera_index = 0\<close> does not take the index
  from the argument: a falsy argument, that is \<open>None\<close> or the integer 0, is replaced by the
  configured \<open>CAMERA_INDEX\<close>. The detector therefore gets an index other than 0 exactly when
  the configured one is not 0; every argument other than 0 is kept.
\<close>

theorem falsy_camera_index_falls_back:
  "camera_index (init_MotionDetector cfg mog2 (Some 0) callback) = CAMERA_INDEX cfg
   \<and> camera_index (init_MotionDetector cfg mog2 None callback) = CAMERA_INDEX cfg
   \<and> (camera_index (init_MotionDetector cfg mog2 (Some 0) callback) \<noteq> 0
        \<longleftrightarrow> CAMERA_INDEX cfg \<noteq> 0)
   \<and> (i \<noteq> 0 \<longrightarrow> camera_index (init_MotionDetector cfg mog2 (Some i) callback) = i)"
  by (simp add: init_MotionDetector_def)

theorem falsy_camera_index_falls_back_witness:
  "camera_index (init_MotionDetector (sample_config\<lparr>CAMERA_INDEX := 2\<rparr>) () (Some 0)
      (Some count_calls)) = 2
   \<and> camera_index (init_MotionDetector (sample_config\<lparr>CAMERA_INDEX := 2\<rparr>) () (Some 1)
      (Some count_calls)) = 1"
  using falsy_camera_index_falls_back
    [of "sample_config\<lparr>CAMERA_INDEX := 2\<rparr>" "()" "Some count_calls" 1]
  by simp

text \<open>
  With \<open>CAMERA_INDEX\<close> at 0, the value it has when the environment does not set it, the
  detector constructed with the argument 0 has the camera index 0.
\<close>

theorem camera_zero_used_under_default:
  "CAMERA_INDEX sample_config = 0
   \<and> camera_index (init_MotionDetector sample_config () (Some 0) (Some count_calls)) = 0"
  by (simp add: init_MotionDetector_def sample_config_def)

lemma process_frame_warmup:
  "frame_count (detector w) + 1 < 30 \<Longrightarrow>
   process_frame cfg vision r w =
     (Skipped (Captured (read_pixels r)), quit_pressed (read_key r),
      w\<lparr>detector := (detector w)\<lparr>frame_count := frame_count (detector w) + 1\<rparr>,
        heap := heap w @ [Captured (read_pixels r)]\<rparr>)"
  by (simp add: process_frame_def alloc_def Let_def)

lemma process_frame_count:
  "frame_count (detector (snd (snd (process_frame cfg vision r w)))) = frame_count (detector w) + 1"
  by (simp add: process_frame_def alloc_def Let_def split: prod.splits)

lemma run_loop_warmup_reports:
  "i < length (fst (run_loop cfg vision reads w)) \<Longrightarrow>
   frame_count (detector w) + int i + 1 < 30 \<Longrightarrow>
   fst (run_loop cfg vision reads w) ! i = Skipped (Captured (read_pixels (reads ! i)))"
proof (induction reads arbitrary: w i)
  case Nil
  then show ?case by simp
next
  case (Cons r rs)
  obtain report quit w' where p: "process_frame cfg vision r w = (report, quit, w')"
    by (cases "process_frame cfg vision r w")
  from Cons.prems(1) have run: "running (detector w)"
    by (auto split: if_splits)
  have fc: "frame_count (detector w') = frame_count (detector w) + 1"
    using process_frame_count [of cfg vision r w] p by simp
  show ?case
  proof (cases i)
    case 0
    with Cons.prems(2) have "frame_count (detector w) + 1 < 30" by simp
    from process_frame_warmup [OF this, of cfg vision r] p
    have "report = Skipped (Captured (read_pixels r))" by simp
    with 0 run p show ?thesis by (simp split: prod.splits)
  next
    case (Suc j)
    with Cons.prems(1) run p have nq: "\<not> quit"
      by (auto split: if_splits)
    from Cons.prems(1) run p nq Suc
    have len: "j < length (fst (run_loop cfg vision rs w'))"
      by (simp split: prod.splits)
    from Cons.prems(2) Suc fc have "frame_count (detector w') + int j + 1 < 30" by simp
    from Cons.IH [OF len this] run p nq Suc show ?thesis
      by (simp add: case_prod_beta)
  qed
qed

lemma run_loop_warmup_state:
  "frame_count (detector w) + int (length reads) < 30 \<Longrightarrow>
   user (snd (run_loop cfg vision reads w)) = user w
   \<and> background_subtractor (detector (snd (run_loop cfg vision reads w)))
       = background_subtractor (detector w)"
proof (induction reads arbitrary: w)
  case Nil
  then show ?case by simp
next
  case (Cons r rs)
  from Cons.prems have "frame_count (detector w) + 1 < 30" by simp
  note p = process_frame_warmup [OF this, of cfg vision r]
  let ?w' = "w\<lparr>detector := (detector w)\<lparr>frame_count := frame_count (detector w) + 1\<rparr>,
        heap := heap w @ [Captured (read_pixels r)]\<rparr>"
  from Cons.prems have "frame_count (detector ?w') + int (length rs) < 30" by simp
  from Cons.IH [OF this] p show ?case
    by (simp add: case_prod_beta)
qed

text \<open>
  C1 (amended): \<open>run\<close> increments \<open>frame_count\<close> before it tests \<open>frame_count < 30\<close>, so the
  test sees the number of the frame counted from one. From a new detector, every frame
  whose number is below 30, that is each of the first 29 frames read, is skipped whatever
  it contains: it is shown as captured, \<open>_detect_motion\<close> is not called and no flag is
  reported for it; while only such frames have been read the background subtractor and the
  callback's state are as they were at the start.
\<close>

theorem warmup_skips_frames_numbered_below_30:
  assumes "frame_count (detector w) = 0"
  shows "(\<forall>i < length (fst (run cfg vision reads w)).
            Suc i < 30 \<longrightarrow>
            fst (run cfg vision reads w) ! i = Skipped (Captured (read_pixels (reads ! i))))
       \<and> (length reads < 30 \<longrightarrow>
            user (snd (run cfg vision reads w)) = user w
            \<and> background_subtractor (detector (snd (run cfg vision reads w)))
                = background_subtractor (detector w))"
proof -
  have "fst (run cfg vision reads w) ! i = Skipped (Captured (read_pixels (reads ! i)))"
    if "i < length (fst (run cfg vision reads w))" and "Suc i < 30" for i
  proof -
    from that(1) have c: "cap (detector w) = Some True"
      by (auto simp: run_def split: if_splits)
    then have eq: "fst (run cfg vision reads w) = fst (run_loop cfg vision reads w)"
      by (simp add: run_def split: prod.splits)
    from that assms have "frame_count (detector w) + int i + 1 < 30" by simp
    from run_loop_warmup_reports [OF _ this] that(1) eq show ?thesis by simp
  qed
  moreover have "user (snd (run cfg vision reads w)) = user w
            \<and> background_subtractor (detector (snd (run cfg vision reads w)))
                = background_subtractor (detector w)" if "length reads < 30"
  proof -
    from that assms have "frame_count (detector w) + int (length reads) < 30" by simp
    from run_loop_warmup_state [OF this, of cfg vision] show ?thesis
      by (simp add: run_def stop_def case_prod_beta)
  qed
  ultimately show ?thesis by blast
qed


theorem warmup_skips_frames_numbered_below_30_witness:
  "frame_count (detector started_world) = 0
   \<and> (28::nat) < length (fst (run sample_config moving_scene thirty_reads started_world))
   \<and> Suc 28 < 30
   \<and> fst (run sample_config moving_scene thirty_reads started_world) ! 28
       = Skipped (Captured (read_pixels (thirty_reads ! 28)))"
proof -
  have fc: "frame_count (detector started_world) = 0"
    by (simp add: started_world_def start_def init_MotionDetector_def)
  have len: "(28::nat) < length (fst (run sample_config moving_scene thirty_reads started_world))"
    by code_simp
  from warmup_skips_frames_numbered_below_30 [OF fc, of sample_config moving_scene thirty_reads]
    fc len
  show ?thesis by simp
qed

text \<open>
  The thirtieth frame read, at position 29 of the stream, gets the number 30: it is
  analysed, motion is reported for it and the callback is called.
\<close>

theorem thirtieth_frame_is_analysed:
  "(29::nat) < 30
   \<and> fst (run sample_config moving_scene thirty_reads started_world) ! 29 =
       Analysed True
         (PutText
            (PutText
               (AddWeighted (Rectangle (Captured 7) (10, 10) (60, 50))
                  (DrawContours (Rectangle (Captured 7) (10, 10) (60, 50))
                     [\<lparr>contourArea = 2000, boundingRect = (10, 10, 50, 40)\<rparr>]))
               (Status True))
            (Timestamp 100000000))
         (Some (Rectangle (Captured 7) (10, 10) (60, 50)))
   \<and> user (snd (run sample_config moving_scene thirty_reads started_world)) = 1"
  by code_simp

lemma boxes_grow:
  "size img \<le> size (foldl (\<lambda>img c. case boundingRect c of
       (x, y, w, h) \<Rightarrow> Rectangle img (x, y) (x + w, y + h)) img cs)"
proof (induction cs arbitrary: img)
  case Nil
  then show ?case by simp
next
  case (Cons c cs)
  obtain x y w h where b: "boundingRect c = (x, y, w, h)"
    by (cases "boundingRect c") auto
  have "size img \<le> size (Rectangle img (x, y) (x + w, y + h))" by simp
  also note Cons.IH [of "Rectangle img (x, y) (x + w, y + h)"]
  finally show ?case by (simp add: b)
qed

lemma boxes_change:
  assumes "cs \<noteq> []"
  shows "foldl (\<lambda>img c. case boundingRect c of
       (x, y, w, h) \<Rightarrow> Rectangle img (x, y) (x + w, y + h)) img cs \<noteq> img"
proof -
  from assms obtain c cs' where cs: "cs = c # cs'" by (cases cs) auto
  obtain x y w h where b: "boundingRect c = (x, y, w, h)"
    by (cases "boundingRect c") auto
  have "size img < size (Rectangle img (x, y) (x + w, y + h))" by simp
  also note boxes_grow [of "Rectangle img (x, y) (x + w, y + h)" cs']
  finally show ?thesis using cs b by auto
qed

lemma detect_motion_unfold:
  assumes frame: "frame < length s"
    and v: "vision bg (s ! frame) = (bg', contours)"
    and m: "mark_contours cfg frame contours (False, [], s) = (md, ma, s1)"
  shows "detect_motion cfg vision bg s frame =
           ((md, Suc (length s)), bg',
            s1 @ [DrawContours (s1 ! frame) ma,
                  AddWeighted (s1 ! frame) (DrawContours (s1 ! frame) ma)])"
proof -
  have l: "length s1 = length s"
    using mark_contours_length [of cfg frame contours False "[]" s] m by simp
  show ?thesis
    using frame by (simp add: detect_motion_def v m alloc_def Let_def l nth_append)
qed

text \<open>
  C5 (amended): \<open>_detect_motion\<close> returns the blended frame in a newly allocated array and
  leaves every other existing array alone; when no contour exceeds the area threshold the
  input frame is unchanged as well. For each contour above the threshold, however, the
  bounding box is drawn on the input array itself, so when motion is detected the frame
  handed to the stage is modified in place.
\<close>

theorem detect_motion_draws_boxes_on_input:
  assumes frame: "frame < length s"
    and res: "detect_motion cfg vision bg s frame = ((motion_detected, blended), bg', s')"
  shows "length s \<le> blended \<and> blended < length s'
       \<and> (\<forall>a < length s. a \<noteq> frame \<longrightarrow> s' ! a = s ! a)
       \<and> s' ! frame =
           foldl (\<lambda>img c. case boundingRect c of
                    (x, y, w, h) \<Rightarrow> Rectangle img (x, y) (x + w, y + h))
             (s ! frame)
             (filter (\<lambda>c. real_of_int (MIN_CONTOUR_AREA cfg) < contourArea c)
                (snd (vision bg (s ! frame))))
       \<and> (\<not> motion_detected \<longrightarrow> s' ! frame = s ! frame)
       \<and> (motion_detected \<longrightarrow> s' ! frame \<noteq> s ! frame)"
proof -
  let ?sig = "\<lambda>c. real_of_int (MIN_CONTOUR_AREA cfg) < contourArea c"
  let ?box = "\<lambda>img c. case boundingRect c of
                (x, y, w, h) \<Rightarrow> Rectangle img (x, y) (x + w, y + h)"
  obtain bg1 contours where v: "vision bg (s ! frame) = (bg1, contours)"
    by (cases "vision bg (s ! frame)")
  obtain md ma s1 where m: "mark_contours cfg frame contours (False, [], s) = (md, ma, s1)"
    by (cases "mark_contours cfg frame contours (False, [], s)")
  have l: "length s1 = length s"
    using mark_contours_length [of cfg frame contours False "[]" s] m by simp
  have "detect_motion cfg vision bg s frame =
           ((md, Suc (length s)), bg1,
            s1 @ [DrawContours (s1 ! frame) ma,
                  AddWeighted (s1 ! frame) (DrawContours (s1 ! frame) ma)])"
    using frame v m by (rule detect_motion_unfold)
  with res
  have md: "motion_detected = md" and bl: "blended = Suc (length s)"
    and s': "s' = s1 @ [DrawContours (s1 ! frame) ma,
                       AddWeighted (s1 ! frame) (DrawContours (s1 ! frame) ma)]"
    by simp_all
  have fresh: "length s \<le> blended \<and> blended < length s'"
    by (simp add: bl s' l)
  have other: "\<forall>a < length s. a \<noteq> frame \<longrightarrow> s' ! a = s ! a"
    using mark_contours_other [of _ frame cfg contours False "[]" s] m
    by (simp add: s' nth_append l)
  have fr: "s' ! frame = foldl ?box (s ! frame) (filter ?sig contours)"
    using mark_contours_frame [OF frame, of cfg contours False "[]"] m frame
    by (simp add: s' nth_append l)
  have flag: "md \<longleftrightarrow> filter ?sig contours \<noteq> []"
    using mark_contours_flag [of cfg frame contours False "[]" s] m
    by (simp add: filter_empty_conv)
  have same: "\<not> motion_detected \<longrightarrow> s' ! frame = s ! frame"
    using flag md fr by simp
  have diff: "motion_detected \<longrightarrow> s' ! frame \<noteq> s ! frame"
    using flag md fr boxes_change [of "filter ?sig contours" "s ! frame"] by simp
  from fresh other fr same diff v show ?thesis by simp
qed

theorem detect_motion_draws_boxes_on_input_witness:
  "(0::nat) < length [Captured 7]
   \<and> detect_motion sample_config moving_scene () [Captured 7] 0 =
       ((True, 2), (),
        [Rectangle (Captured 7) (10, 10) (60, 50),
         DrawContours (Rectangle (Captured 7) (10, 10) (60, 50))
           [\<lparr>contourArea = 2000, boundingRect = (10, 10, 50, 40)\<rparr>],
         AddWeighted (Rectangle (Captured 7) (10, 10) (60, 50))
           (DrawContours (Rectangle (Captured 7) (10, 10) (60, 50))
              [\<lparr>contourArea = 2000, boundingRect = (10, 10, 50, 40)\<rparr>])])
   \<and> Rectangle (Captured 7) (10, 10) (60, 50) \<noteq> [Captured 7] ! 0"
proof -
  have f: "(0::nat) < length [Captured 7]" by simp
  have e: "detect_motion sample_config moving_scene () [Captured 7] 0 =
       ((True, 2), (),
        [Rectangle (Captured 7) (10, 10) (60, 50),
         DrawContours (Rectangle (Captured 7) (10, 10) (60, 50))
           [\<lparr>contourArea = 2000, boundingRect = (10, 10, 50, 40)\<rparr>],
         AddWeighted (Rectangle (Captured 7) (10, 10) (60, 50))
           (DrawContours (Rectangle (Captured 7) (10, 10) (60, 50))
              [\<lparr>contourArea = 2000, boundingRect = (10, 10, 50, 40)\<rparr>])])"
    by code_simp
  from detect_motion_draws_boxes_on_input [OF f e] f e show ?thesis
    by (simp add: sample_config_def moving_scene_def)
qed

text \<open>
  A frame in which one contour of area 2000 is found: after the call the array that was
  passed in holds the frame with a rectangle drawn on it.
\<close>

theorem input_frame_mutated_in_place:
  "[Captured 7] ! 0 = Captured 7
   \<and> snd (snd (detect_motion sample_config moving_scene () [Captured 7] 0)) ! 0
       = Rectangle (Captured 7) (10, 10) (60, 50)
   \<and> snd (snd (detect_motion sample_config moving_scene () [Captured 7] 0)) ! 0
       \<noteq> [Captured 7] ! 0"
  by code_simp

end
